theory Spec2Isabelle
  imports Main
begin

section \<open>text-merger: merging the text files of a zip archive into one Markdown document\<close>

text \<open>
  A shallow embedding of \<^verbatim>\<open>src/text_merger.py\<close>. The program talks to the operating
  system at every step (sub-processes, the file system, the archive reader), so everything
  it can observe is collected in a record \<open>world\<close>, and every function of the source that
  looks at the outside takes the world as its first argument. What the program prints and
  the file it writes are returned as values.

  Strings are \<^typ>\<open>string\<close>. A path is the list of its components; the program only ever
  takes the last component apart.
\<close>

subsection \<open>Strings and paths\<close>

text \<open>
  \<^verbatim>\<open>str.lower\<close>, on the ASCII letters; every other character of the model is left as it
  is. The tables of the program hold ASCII extensions only, and file names are taken to be
  ASCII: Python also lower-cases the letters beyond ASCII, of which the Kelvin sign U+212A
  alone becomes an ASCII letter.
\<close>

definition lower_char :: "char \<Rightarrow> char" where
  "lower_char c =
     (case map_of (zip ''ABCDEFGHIJKLMNOPQRSTUVWXYZ'' ''abcdefghijklmnopqrstuvwxyz'') c of
        Some l \<Rightarrow> l
      | None \<Rightarrow> c)"

definition lower :: "string \<Rightarrow> string" where
  "lower s = map lower_char s"

text \<open>\<^verbatim>\<open>str.rfind\<close> for a single character: the last index where it occurs.\<close>

fun rfind :: "char \<Rightarrow> string \<Rightarrow> nat option" where
  "rfind c [] = None"
| "rfind c (x # xs) =
     (case rfind c xs of
        Some i \<Rightarrow> Some (Suc i)
      | None \<Rightarrow> if x = c then Some 0 else None)"

text \<open>\<^verbatim>\<open>PurePath.name\<close>: the last component, empty for a root.\<close>

definition name :: "string list \<Rightarrow> string" where
  "name p = (if p = [] then [] else last p)"

text \<open>
  \<^verbatim>\<open>PurePath.suffix\<close> as pathlib defines it up to Python 3.13:
  \<^verbatim>\<open>i = name.rfind('.'); if 0 < i < len(name) - 1: return name[i:] else: return ''\<close>.
\<close>

definition suffix :: "string list \<Rightarrow> string" where
  "suffix p =
     (case rfind (CHR ''.'') (name p) of
        None \<Rightarrow> []
      | Some i \<Rightarrow> if 0 < i \<and> i + 1 < length (name p) then drop i (name p) else [])"

text \<open>
  The exceptions that can leave a function of the program: those of \<^verbatim>\<open>with_name\<close> and
  of \<^verbatim>\<open>write\<close>, and \<open>Run_error\<close> for whatever \<^verbatim>\<open>subprocess.run\<close> raises other than
  \<^verbatim>\<open>CalledProcessError\<close>.
\<close>

datatype exn = ValueError | TypeError | Run_error

text \<open>\<^verbatim>\<open>PurePath.with_name\<close>: a path without a name has no sibling.\<close>

definition with_name :: "string list \<Rightarrow> string \<Rightarrow> exn + string list" where
  "with_name p n = (if name p = [] then Inl ValueError else Inr (butlast p @ [n]))"

text \<open>\<^verbatim>\<open>str(path)\<close> of an absolute POSIX path.\<close>

definition path_str :: "string list \<Rightarrow> string" where
  "path_str p = concat (map (\<lambda>c. ''/'' @ c) p)"

subsection \<open>The world\<close>

text \<open>
  The outcome of \<^verbatim>\<open>subprocess.run(cmd, ...)\<close>: the process ran and exited with a return
  code (negative when a signal ended it) and a standard output, or the call itself raised
  (the executable cannot be started, the output is not UTF-8). With \<^verbatim>\<open>check=True\<close> a
  non-zero return code becomes \<^verbatim>\<open>CalledProcessError\<close>.
\<close>

datatype proc = Exit int string | Raised

text \<open>
  The content of a file as the UTF-8 decoder sees it: a sequence of decoded characters and
  of malformed byte sequences.
\<close>

datatype piece = Chr char | Malformed

text \<open>
  An extracted file, as \<^verbatim>\<open>os.walk\<close> yields it: \<open>subdir\<close> is the directory that holds
  it, below the extraction directory, and \<open>file_name\<close> its name there. \<open>st_size\<close> is its
  size in bytes, \<open>readable\<close> tells whether \<^verbatim>\<open>open\<close> succeeds. The text layer of the
  runtime decodes whole buffers: when \<^verbatim>\<open>read(n)\<close> returns it has decoded the \<open>n\<close>
  pieces asked for and \<open>decoded_ahead\<close> more.
\<close>

record entry =
  subdir :: "string list"
  file_name :: string
  content :: "piece list"
  st_size :: nat
  readable :: bool
  decoded_ahead :: nat

text \<open>
  What \<^verbatim>\<open>zipfile.ZipFile(path).extractall(temp_dir)\<close> followed by \<^verbatim>\<open>os.walk(temp_dir)\<close>
  gives for an existing path: \<^verbatim>\<open>BadZipFile\<close> is raised, another exception is raised
  (the path is a directory, the file cannot be read), or the files are extracted, listed
  here in the order of the walk.
\<close>

datatype archive = BadZipFile | Failed | Extracted "entry list"

record world =
  executable :: string
  which :: "string \<Rightarrow> string option"
  run :: "string list \<Rightarrow> proc"
  resolve :: "string \<Rightarrow> string list"
  archive_at :: "string list \<Rightarrow> archive option"
  temp_dir :: "string list"

text \<open>
  \<open>executable\<close> is \<^verbatim>\<open>sys.executable\<close>, \<open>which\<close> is \<^verbatim>\<open>shutil.which\<close>, \<open>run\<close> is
  \<^verbatim>\<open>subprocess.run\<close>, \<open>resolve\<close> is \<^verbatim>\<open>Path(p).resolve()\<close>, \<open>archive_at p\<close> is
  \<open>None\<close> when \<open>p\<close> does not exist, and \<open>temp_dir\<close> is the directory that
  \<^verbatim>\<open>tempfile.TemporaryDirectory()\<close> creates.
\<close>

text \<open>
  \<^verbatim>\<open>file_path = Path(root) / file\<close> and
  \<^verbatim>\<open>relative_path = file_path.relative_to(temp_dir)\<close>.
\<close>

definition file_path :: "world \<Rightarrow> entry \<Rightarrow> string list" where
  "file_path w f = temp_dir w @ subdir f @ [file_name f]"

definition relative_path :: "entry \<Rightarrow> string list" where
  "relative_path f = subdir f @ [file_name f]"

subsection \<open>Reading text files\<close>

datatype io_error = OSError | UnicodeDecodeError

text \<open>
  The text that decoding with \<^verbatim>\<open>errors='replace'\<close> gives: each malformed sequence
  becomes U+FFFD, written here as the three bytes of its UTF-8 form.
\<close>

definition replacement :: string where
  "replacement = [CHR 0xEF, CHR 0xBF, CHR 0xBD]"

fun decode :: "piece list \<Rightarrow> string" where
  "decode [] = []"
| "decode (Chr c # us) = c # decode us"
| "decode (Malformed # us) = replacement @ decode us"

text \<open>
  \<^verbatim>\<open>open(p, 'r', encoding='utf-8')\<close> followed by \<^verbatim>\<open>f.read(n)\<close>: strict decoding of the
  head of the file.
\<close>

definition read_strict :: "nat \<Rightarrow> entry \<Rightarrow> io_error + string" where
  "read_strict n f =
     (if \<not> readable f then Inl OSError
      else if Malformed \<in> set (take (n + decoded_ahead f) (content f))
           then Inl UnicodeDecodeError
      else Inr (decode (take n (content f))))"

text \<open>
  \<^verbatim>\<open>open(p, 'r', encoding='utf-8', errors='replace')\<close> followed by \<^verbatim>\<open>infile.read()\<close>:
  the whole file, each malformed sequence replaced by U+FFFD.
\<close>

definition read_replace :: "entry \<Rightarrow> io_error + string" where
  "read_replace f = (if \<not> readable f then Inl OSError else Inr (decode (content f)))"

subsection \<open>The classifier\<close>

definition pandoc_formats :: "string list" where
  "pandoc_formats =
     [''.docx'', ''.odt'', ''.tex'', ''.latex'', ''.rst'', ''.org'', ''.wiki'',
      ''.epub'', ''.html'', ''.htm'']"

definition text_extensions :: "string list" where
  "text_extensions =
     [''.txt'', ''.md'', ''.py'', ''.js'', ''.html'', ''.css'', ''.json'', ''.xml'',
      ''.yml'', ''.yaml'', ''.ini'', ''.conf'', ''.sh'', ''.bat'', ''.c'', ''.cpp'',
      ''.h'', ''.java'', ''.rs'', ''.go'', ''.ts'', ''.tsx'', ''.jsx'', ''.vue'',
      ''.php'', ''.rb'', ''.pl'', ''.sql'', ''.r'', ''.m'', ''.swift'', ''.kt'']"

definition jupytext_probe :: "world \<Rightarrow> string list" where
  "jupytext_probe w = [executable w, ''-m'', ''jupytext'', ''--version'']"

definition jupytext_cmd :: "world \<Rightarrow> string list" where
  "jupytext_cmd w =
     [executable w, ''-m'', ''jupytext'', ''--to'', ''markdown'', ''--output'', ''-'']"

definition pandoc_cmd :: "string list" where
  "pandoc_cmd = [''pandoc'', ''-t'', ''markdown'']"

text \<open>
  The second half of \<^verbatim>\<open>get_conversion_tool\<close>: \<^verbatim>\<open>if extension in pandoc_formats: if
  shutil.which('pandoc'): return [...]\<close>, else \<^verbatim>\<open>None\<close>. A path returned by
  \<^verbatim>\<open>which\<close> counts as true when it is not empty.
\<close>

definition pandoc_tool :: "world \<Rightarrow> string \<Rightarrow> string list option" where
  "pandoc_tool w extension =
     (if extension \<in> set pandoc_formats
      then (case which w ''pandoc'' of
              None \<Rightarrow> None
            | Some p \<Rightarrow> if p \<noteq> [] then Some pandoc_cmd else None)
      else None)"

text \<open>
  \<^verbatim>\<open>get_conversion_tool\<close>. The probe for jupytext runs with \<^verbatim>\<open>check=True\<close>; only
  \<^verbatim>\<open>CalledProcessError\<close> is caught, and then the function goes on to the pandoc formats.
  Any other exception of the probe leaves the function.
\<close>

definition get_conversion_tool :: "world \<Rightarrow> string \<Rightarrow> exn + string list option" where
  "get_conversion_tool w ext =
     (let extension = lower ext in
      if extension = ''.ipynb''
      then (case run w (jupytext_probe w) of
              Exit rc out \<Rightarrow>
                if rc = 0 then Inr (Some (jupytext_cmd w)) else Inr (pandoc_tool w extension)
            | Raised \<Rightarrow> Inl Run_error)
      else Inr (pandoc_tool w extension))"

text \<open>The lines the program prints, one constructor for each \<^verbatim>\<open>print\<close> of the source.\<close>

datatype message =
    Not_found "string list"
  | Processing "string list"
  | Invalid_zip
  | Conversion_failed "string list"
  | Error_converting "string list"
  | Converted_and_added "string list"
  | Added "string list"
  | Skipping "string list"
  | Done "string list"

text \<open>
  \<^verbatim>\<open>convert_file\<close>: the pair \<^verbatim>\<open>(content, was_converted)\<close> and what was printed. The call of
  \<^verbatim>\<open>get_conversion_tool\<close> stands before the \<^verbatim>\<open>try\<close>, so its exception is not caught
  here. \<^verbatim>\<open>if tool_cmd:\<close> holds for a list that is not empty.
\<close>

definition convert_file ::
  "world \<Rightarrow> string list \<Rightarrow> exn + ((string option \<times> bool) \<times> message list)" where
  "convert_file w path =
     (case get_conversion_tool w (suffix path) of
        Inl e \<Rightarrow> Inl e
      | Inr None \<Rightarrow> Inr ((None, False), [])
      | Inr (Some tool_cmd) \<Rightarrow>
          if tool_cmd \<noteq> []
          then (case run w (tool_cmd @ [path_str path]) of
                  Exit rc out \<Rightarrow>
                    if rc = 0 then Inr ((Some out, True), [])
                    else Inr ((None, False), [Conversion_failed path])
                | Raised \<Rightarrow> Inr ((None, False), [Error_converting path]))
          else Inr ((None, False), []))"

text \<open>
  \<^verbatim>\<open>is_text_file\<close>: the allow-list first, then the attempt to read 1024 characters;
  \<^verbatim>\<open>UnicodeDecodeError\<close> and \<^verbatim>\<open>OSError\<close> are both caught and mean no.
\<close>

definition is_text_file :: "world \<Rightarrow> entry \<Rightarrow> bool" where
  "is_text_file w f =
     (if lower (suffix (file_path w f)) \<in> set text_extensions then True
      else (case read_strict 1024 f of
              Inr s \<Rightarrow> True
            | Inl UnicodeDecodeError \<Rightarrow> False
            | Inl OSError \<Rightarrow> False))"

subsection \<open>The aggregator\<close>

text \<open>
  One section of the output document: the heading \<^verbatim>\<open>## File: <path>\<close> (with
  \<^verbatim>\<open>(Converted)\<close> for a converted file), the lines for size, extension and path, and
  the fenced body.
\<close>

record doc_section =
  sec_path :: "string list"
  sec_converted :: bool
  sec_size :: nat
  sec_ext :: string
  sec_body :: string

record document =
  title :: string
  sections :: "doc_section list"

text \<open>
  The text of a document, as the list of the strings passed to \<^verbatim>\<open>outfile.write\<close>: one
  for the title, eight for each section. \<open>rel_str\<close> is \<^verbatim>\<open>str\<close> of a relative path,
  \<open>decimal\<close> is \<^verbatim>\<open>str\<close> of a size.
\<close>

fun rel_str :: "string list \<Rightarrow> string" where
  "rel_str [] = ''.''"
| "rel_str [c] = c"
| "rel_str (c # cs) = c @ ''/'' @ rel_str cs"

fun decimal :: "nat \<Rightarrow> string" where
  "decimal n =
     (if n < 10 then [''0123456789'' ! n]
      else decimal (n div 10) @ [''0123456789'' ! (n mod 10)])"

declare decimal.simps [simp del]

definition render_section :: "doc_section \<Rightarrow> string list" where
  "render_section s =
     [''## File: '' @ rel_str (sec_path s) @
        (if sec_converted s then '' (Converted)'' else []) @ [CHR 0x0A],
      ''- **Size**: '' @ decimal (sec_size s) @ '' bytes'' @ [CHR 0x0A],
      ''- **Extension**: '' @ sec_ext s @ [CHR 0x0A],
      ''- **Path**: '' @ rel_str (sec_path s) @ [CHR 0x0A, CHR 0x0A],
      (if sec_converted s then ''```markdown'' else ''```'') @ [CHR 0x0A],
      sec_body s,
      [CHR 0x0A] @ ''```'' @ [CHR 0x0A, CHR 0x0A],
      ''---'' @ [CHR 0x0A, CHR 0x0A]]"

definition render :: "document \<Rightarrow> string list" where
  "render d =
     (''# Content of '' @ title d @ [CHR 0x0A, CHR 0x0A]) # concat (map render_section (sections d))"

text \<open>Lines 124 to 134: the section written for a converted file.\<close>

definition converted_section :: "world \<Rightarrow> entry \<Rightarrow> string \<Rightarrow> doc_section" where
  "converted_section w f c =
     \<lparr>sec_path = relative_path f, sec_converted = True, sec_size = st_size f,
      sec_ext = suffix (file_path w f), sec_body = c\<rparr>"

text \<open>Lines 141 to 148: the section written for a file read as text.\<close>

definition text_section :: "world \<Rightarrow> entry \<Rightarrow> string \<Rightarrow> doc_section" where
  "text_section w f c =
     \<lparr>sec_path = relative_path f, sec_converted = False, sec_size = st_size f,
      sec_ext = suffix (file_path w f), sec_body = c\<rparr>"

text \<open>
  Lines 136 to 151, the plain-text handling of an entry: the sections written and the
  lines printed. The file is read inside the \<^verbatim>\<open>try\<close> before anything is written, so a
  failing read writes nothing.
\<close>

definition text_entry :: "world \<Rightarrow> entry \<Rightarrow> doc_section list \<times> message list" where
  "text_entry w f =
     (if is_text_file w f
      then (case read_replace f of
              Inr c \<Rightarrow> ([text_section w f c], [Added (relative_path f)])
            | Inl e \<Rightarrow> ([], [Skipping (relative_path f)]))
      else ([], []))"

text \<open>
  The body of the loop over the extracted files (lines 118 to 151). An exception that
  \<^verbatim>\<open>convert_file\<close> lets through ends the run. \<^verbatim>\<open>outfile.write(None)\<close> would raise
  \<^verbatim>\<open>TypeError\<close>.
\<close>

definition process_entry :: "world \<Rightarrow> entry \<Rightarrow> exn + (doc_section list \<times> message list)" where
  "process_entry w f =
     (case convert_file w (file_path w f) of
        Inl e \<Rightarrow> Inl e
      | Inr ((c, converted), printed) \<Rightarrow>
          if converted
          then (case c of
                  Some out \<Rightarrow>
                    Inr ([converted_section w f out],
                         printed @ [Converted_and_added (relative_path f)])
                | None \<Rightarrow> Inl TypeError)
          else (case text_entry w f of (ss, ms) \<Rightarrow> Inr (ss, printed @ ms)))"

text \<open>
  The loop: the sections written and the lines printed, in order, and whether an exception
  ended the walk. What was written before the exception stays in the output file.
\<close>

fun process_files :: "world \<Rightarrow> entry list \<Rightarrow> doc_section list \<times> message list \<times> bool" where
  "process_files w [] = ([], [], False)"
| "process_files w (f # fs) =
     (case process_entry w f of
        Inl e \<Rightarrow> ([], [], True)
      | Inr (ss, ms) \<Rightarrow>
          (case process_files w fs of (ss', ms', c) \<Rightarrow> (ss @ ss', ms @ ms', c)))"

text \<open>
  The result of a run: the lines printed, the output file (its path and content) when one
  was created, and whether the run ended in an exception that nothing caught. Opening the
  output file for writing is taken to succeed.
\<close>

record result =
  printed :: "message list"
  outfile :: "(string list \<times> document) option"
  crashed :: bool

definition process_zip :: "world \<Rightarrow> string \<Rightarrow> result" where
  "process_zip w arg =
     (let zip_path = resolve w arg in
      case archive_at w zip_path of
        None \<Rightarrow> \<lparr>printed = [Not_found zip_path], outfile = None, crashed = False\<rparr>
      | Some a \<Rightarrow>
          (case with_name zip_path (name zip_path @ ''.md'') of
             Inl e \<Rightarrow> \<lparr>printed = [], outfile = None, crashed = True\<rparr>
           | Inr output_file \<Rightarrow>
               (case a of
                  BadZipFile \<Rightarrow>
                    \<lparr>printed = [Processing zip_path, Invalid_zip], outfile = None,
                     crashed = False\<rparr>
                | Failed \<Rightarrow>
                    \<lparr>printed = [Processing zip_path], outfile = None, crashed = True\<rparr>
                | Extracted files \<Rightarrow>
                    (case process_files w files of (ss, ms, c) \<Rightarrow>
                       \<lparr>printed = [Processing zip_path] @ ms @
                                   (if c then [] else [Done output_file]),
                        outfile = Some (output_file, \<lparr>title = name zip_path, sections = ss\<rparr>),
                        crashed = c\<rparr>))))"

subsection \<open>Worlds to run the program in\<close>

text \<open>
  The archive that \<^verbatim>\<open>src/create_test_zip.py\<close> builds: two text files and a PNG header at
  the top, a Markdown file in \<^verbatim>\<open>docs\<close>. The first byte of the PNG header, 0x89, is
  malformed as UTF-8.
\<close>

definition hello_txt :: entry where
  "hello_txt =
     \<lparr>subdir = [], file_name = ''hello.txt'',
      content = map Chr ''Hello world from a text file!'',
      st_size = 29, readable = True, decoded_ahead = 7168\<rparr>"

definition script_py :: entry where
  "script_py =
     \<lparr>subdir = [], file_name = ''script.py'',
      content = map Chr (''print('' @ [CHR 0x27] @ ''This is a python script'' @ [CHR 0x27] @ '')''),
      st_size = 32, readable = True, decoded_ahead = 7168\<rparr>"

definition readme_md :: entry where
  "readme_md =
     \<lparr>subdir = [''docs''], file_name = ''readme.md'',
      content = map Chr (''# Documentation'' @ [CHR 0x0A] @ ''This is a markdown file.''),
      st_size = 40, readable = True, decoded_ahead = 7168\<rparr>"

definition image_png :: entry where
  "image_png =
     \<lparr>subdir = [], file_name = ''image.png'',
      content = Malformed # map Chr (''PNG'' @ [CHR 0x0D, CHR 0x0A, CHR 0x1A, CHR 0x0A,
                  CHR 0x00, CHR 0x00, CHR 0x00, CHR 0x0D] @ ''IHDR''),
      st_size = 16, readable = True, decoded_ahead = 7168\<rparr>"

definition test_files :: "entry list" where
  "test_files = [hello_txt, script_py, image_png, readme_md]"

text \<open>
  A machine with neither jupytext nor pandoc, started in \<^verbatim>\<open>/work\<close>, where
  \<^verbatim>\<open>test_archive.zip\<close> is the archive above and \<^verbatim>\<open>broken.zip\<close> is not a zip file.
\<close>

definition test_world :: world where
  "test_world =
     \<lparr>executable = ''/usr/bin/python3'',
      which = (\<lambda>cmd. None),
      run = (\<lambda>cmd. Exit 1 []),
      resolve = (\<lambda>arg. [''work'', arg]),
      archive_at = (\<lambda>p. if p = [''work'', ''test_archive.zip''] then Some (Extracted test_files)
                         else if p = [''work'', ''broken.zip''] then Some BadZipFile
                         else None),
      temp_dir = [''tmp'', ''tmpk3v9x1''] \<rparr>"

text \<open>
  A Word document: a zip container, binary after its signature. On the machine
  \<open>pandoc_world\<close> pandoc is installed and converts it.
\<close>

definition report_docx :: entry where
  "report_docx =
     \<lparr>subdir = [], file_name = ''report.docx'',
      content = map Chr (''PK'' @ [CHR 0x03, CHR 0x04, CHR 0x14, CHR 0x00]) @ [Malformed, Malformed],
      st_size = 11532, readable = True, decoded_ahead = 7168\<rparr>"

definition pandoc_world :: world where
  "pandoc_world =
     \<lparr>executable = ''/usr/bin/python3'',
      which = (\<lambda>cmd. if cmd = ''pandoc'' then Some ''/usr/bin/pandoc'' else None),
      run = (\<lambda>cmd. if cmd = [''pandoc'', ''-t'', ''markdown'', ''/tmp/tmpk3v9x1/report.docx'']
                    then Exit 0 ''# Quarterly report'' else Exit 1 []),
      resolve = (\<lambda>arg. [''work'', arg]),
      archive_at = (\<lambda>p. if p = [''work'', ''reports.zip''] then Some (Extracted [report_docx])
                         else None),
      temp_dir = [''tmp'', ''tmpk3v9x1''] \<rparr>"

text \<open>
  A data file of 20000 letters followed by the byte 0xFF. The runtime decodes the first 8192
  bytes to serve \<^verbatim>\<open>read(1024)\<close>.
\<close>

definition dump_dat :: entry where
  "dump_dat =
     \<lparr>subdir = [], file_name = ''dump.dat'',
      content = replicate 20000 (Chr (CHR ''a'')) @ [Malformed],
      st_size = 20001, readable = True, decoded_ahead = 7168\<rparr>"

text \<open>
  A page of a web site, a notebook, and the PNG header again under a name that ends in
  \<^verbatim>\<open>.txt\<close>.
\<close>

definition index_html :: entry where
  "index_html =
     \<lparr>subdir = [''site''], file_name = ''index.html'',
      content = map Chr ''<p>Hello</p>'',
      st_size = 12, readable = True, decoded_ahead = 7168\<rparr>"

definition notebook_ipynb :: entry where
  "notebook_ipynb =
     \<lparr>subdir = [], file_name = ''analysis.ipynb'',
      content = map Chr ''{}'',
      st_size = 2, readable = True, decoded_ahead = 7168\<rparr>"

definition image_txt :: entry where
  "image_txt = image_png\<lparr>file_name := ''image.txt''\<rparr>"

text \<open>The first machine, with an archive that holds the data file alone.\<close>

definition dump_world :: world where
  "dump_world =
     test_world\<lparr>archive_at :=
       (\<lambda>p. if p = [''work'', ''dump.zip''] then Some (Extracted [dump_dat]) else None)\<rparr>"

text \<open>
  The machine with pandoc, and an archive with the Word document, the PNG header and a
  text file.
\<close>

definition mixed_files :: "entry list" where
  "mixed_files = [report_docx, image_png, hello_txt]"

definition mixed_world :: world where
  "mixed_world =
     pandoc_world\<lparr>archive_at :=
       (\<lambda>p. if p = [''work'', ''mixed.zip''] then Some (Extracted mixed_files) else None)\<rparr>"

subsection \<open>What happens to an entry\<close>

text \<open>Whether \<^verbatim>\<open>convert_file\<close> reports the file as converted.\<close>

definition converts :: "world \<Rightarrow> entry \<Rightarrow> bool" where
  "converts w f =
     (case convert_file w (file_path w f) of
        Inl e \<Rightarrow> False
      | Inr ((c, converted), ms) \<Rightarrow> converted)"

section \<open>Properties\<close>

lemmas fixture_defs =
  hello_txt_def script_py_def readme_md_def image_png_def test_files_def test_world_def
  report_docx_def pandoc_world_def dump_dat_def index_html_def notebook_ipynb_def
  image_txt_def dump_world_def mixed_files_def mixed_world_def

lemmas model_defs =
  process_zip_def process_entry_def convert_file_def get_conversion_tool_def
  pandoc_tool_def text_entry_def is_text_file_def read_strict_def read_replace_def
  file_path_def relative_path_def suffix_def name_def with_name_def lower_def lower_char_def
  text_extensions_def pandoc_formats_def text_section_def converted_section_def path_str_def
  pandoc_cmd_def jupytext_cmd_def jupytext_probe_def

subsection \<open>Paths and extensions\<close>

lemma name_file_path: "name (file_path w f) = file_name f"
  by (simp add: name_def file_path_def)

lemma name_single: "name [n] = n"
  by (simp add: name_def)

text \<open>The extension of an extracted file is that of its name, wherever it lies.\<close>

lemma suffix_file_path: "suffix (file_path w f) = suffix [file_name f]"
  unfolding suffix_def name_file_path name_single ..

lemma lower_char_idem: "lower_char (lower_char c) = lower_char c"
  by (simp add: lower_char_def)

lemma lower_idem: "lower (lower s) = lower s"
  by (simp add: lower_def lower_char_idem)

subsection \<open>The conversion tool\<close>


text \<open>Both command templates are true in the sense of \<^verbatim>\<open>if tool_cmd:\<close>.\<close>

lemma tool_cmd_nonempty: "get_conversion_tool w ext = Inr (Some cmd) \<Longrightarrow> cmd \<noteq> []"
  by (auto simp: get_conversion_tool_def pandoc_tool_def pandoc_cmd_def jupytext_cmd_def Let_def
      split: if_splits proc.splits option.splits)

lemma convert_file_no_tool:
  "get_conversion_tool w (suffix p) = Inr None \<Longrightarrow> convert_file w p = Inr ((None, False), [])"
  by (simp add: convert_file_def)


text \<open>
  Claim C9. Classification by extension does not depend on the case of the extension:
  \<open>get_conversion_tool\<close> answers the same for an extension and for its lower-cased form,
  and \<open>is_text_file\<close> answers the same for two files that differ only in that the
  extension of the second is the lower-cased extension of the first.
\<close>

theorem extension_case_insensitive:
  "get_conversion_tool w (lower ext) = get_conversion_tool w ext \<and>
   (suffix [n] = lower (suffix [file_name f]) \<longrightarrow>
      is_text_file w (f\<lparr>file_name := n\<rparr>) = is_text_file w f)"
proof
  show "get_conversion_tool w (lower ext) = get_conversion_tool w ext"
    by (simp add: get_conversion_tool_def lower_idem)
next
  show "suffix [n] = lower (suffix [file_name f]) \<longrightarrow>
      is_text_file w (f\<lparr>file_name := n\<rparr>) = is_text_file w f"
  proof
    assume eq: "suffix [n] = lower (suffix [file_name f])"
    have "lower (suffix (file_path w (f\<lparr>file_name := n\<rparr>))) = lower (suffix (file_path w f))"
      by (simp add: suffix_file_path eq lower_idem)
    then show "is_text_file w (f\<lparr>file_name := n\<rparr>) = is_text_file w f"
      by (simp add: is_text_file_def read_strict_def)
  qed
qed

theorem extension_case_insensitive_witness:
  "get_conversion_tool pandoc_world (lower ''.DOCX'') = get_conversion_tool pandoc_world ''.DOCX'' \<and>
   get_conversion_tool pandoc_world ''.DOCX'' = Inr (Some pandoc_cmd) \<and>
   suffix [''hello.txt''] = lower (suffix [''HELLO.TXT'']) \<and>
   is_text_file test_world (hello_txt\<lparr>file_name := ''HELLO.TXT''\<rparr>) \<and>
   is_text_file test_world hello_txt"
proof -
  have t: "get_conversion_tool pandoc_world ''.DOCX'' = Inr (Some pandoc_cmd)"
    by (simp add: fixture_defs model_defs)
  have e: "suffix [''hello.txt''] = lower (suffix [''HELLO.TXT''])"
    by (simp add: model_defs)
  have u: "is_text_file test_world (hello_txt\<lparr>file_name := ''HELLO.TXT''\<rparr>)"
    by (simp add: fixture_defs model_defs)
  have h: "hello_txt\<lparr>file_name := ''HELLO.TXT''\<rparr>\<lparr>file_name := ''hello.txt''\<rparr> = hello_txt"
    by (simp add: hello_txt_def)
  from extension_case_insensitive
      [of pandoc_world "''.DOCX''" "''hello.txt''" "hello_txt\<lparr>file_name := ''HELLO.TXT''\<rparr>"]
    extension_case_insensitive
      [of test_world "''.DOCX''" "''hello.txt''" "hello_txt\<lparr>file_name := ''HELLO.TXT''\<rparr>"]
    t e u h
  show ?thesis
    by simp
qed

subsection \<open>The run as a whole\<close>



text \<open>The run on an archive that extracts, in terms of the loop over its files.\<close>

lemma process_zip_extracted:
  assumes "archive_at w (resolve w arg) = Some (Extracted files)"
    and "name (resolve w arg) \<noteq> []"
  shows "process_zip w arg =
     \<lparr>printed = [Processing (resolve w arg)] @ fst (snd (process_files w files)) @
                 (if snd (snd (process_files w files)) then []
                  else [Done (butlast (resolve w arg) @ [name (resolve w arg) @ ''.md''])]),
      outfile = Some (butlast (resolve w arg) @ [name (resolve w arg) @ ''.md''],
                      \<lparr>title = name (resolve w arg),
                       sections = fst (process_files w files)\<rparr>),
      crashed = snd (snd (process_files w files))\<rparr>"
  using assms by (simp add: process_zip_def with_name_def Let_def case_prod_beta)



subsection \<open>The loop over the extracted files\<close>

lemma process_files_Cons:
  "process_entry w f = Inr (ss, ms) \<Longrightarrow>
     process_files w (f # fs) =
       (ss @ fst (process_files w fs), ms @ fst (snd (process_files w fs)),
        snd (snd (process_files w fs)))"
  by (simp add: case_prod_beta)

lemma process_entry_not_converted:
  "convert_file w (file_path w f) = Inr ((c, False), ms) \<Longrightarrow>
     process_entry w f = Inr (fst (text_entry w f), ms @ snd (text_entry w f))"
  by (simp add: process_entry_def case_prod_beta)

lemma process_entry_no_tool:
  "get_conversion_tool w (suffix (file_path w f)) = Inr None \<Longrightarrow>
     process_entry w f = Inr (text_entry w f)"
  by (simp add: process_entry_not_converted [OF convert_file_no_tool])

text \<open>
  Claim C3. When a conversion tool was chosen for a file and running it exits with a
  non-zero code or raises, \<open>convert_file\<close> prints one line and returns no content with
  \<open>converted = False\<close>; the loop then handles the file as plain text, and goes on to
  the remaining files.
\<close>

theorem conversion_failure_falls_back:
  assumes tool: "get_conversion_tool w (suffix (file_path w f)) = Inr (Some cmd)"
    and fail: "run w (cmd @ [path_str (file_path w f)]) = Raised \<or>
               (\<exists>rc out. run w (cmd @ [path_str (file_path w f)]) = Exit rc out \<and> rc \<noteq> 0)"
  shows "\<exists>m. (m = Conversion_failed (file_path w f) \<or> m = Error_converting (file_path w f)) \<and>
           convert_file w (file_path w f) = Inr ((None, False), [m]) \<and>
           process_entry w f = Inr (fst (text_entry w f), m # snd (text_entry w f)) \<and>
           process_files w (f # fs) =
             (fst (text_entry w f) @ fst (process_files w fs),
              m # snd (text_entry w f) @ fst (snd (process_files w fs)),
              snd (snd (process_files w fs)))"
proof -
  have ne: "cmd \<noteq> []"
    using tool by (rule tool_cmd_nonempty)
  from fail obtain m where m: "m = Conversion_failed (file_path w f) \<or> m = Error_converting (file_path w f)"
    and c: "convert_file w (file_path w f) = Inr ((None, False), [m])"
    using tool ne by (auto simp: convert_file_def)
  have e: "process_entry w f = Inr (fst (text_entry w f), m # snd (text_entry w f))"
    using process_entry_not_converted [OF c] by simp
  from m c e process_files_Cons [OF e, of fs] show ?thesis
    by auto
qed

theorem conversion_failure_falls_back_witness:
  "get_conversion_tool pandoc_world (suffix (file_path pandoc_world index_html)) = Inr (Some pandoc_cmd) \<and>
   run pandoc_world (pandoc_cmd @ [path_str (file_path pandoc_world index_html)]) = Exit 1 [] \<and>
   convert_file pandoc_world (file_path pandoc_world index_html) =
     Inr ((None, False), [Conversion_failed [''tmp'', ''tmpk3v9x1'', ''site'', ''index.html'']]) \<and>
   process_entry pandoc_world index_html =
     Inr ([text_section pandoc_world index_html ''<p>Hello</p>''],
          [Conversion_failed [''tmp'', ''tmpk3v9x1'', ''site'', ''index.html''],
           Added [''site'', ''index.html'']])"
proof -
  have t: "get_conversion_tool pandoc_world (suffix (file_path pandoc_world index_html)) =
      Inr (Some pandoc_cmd)"
    by (simp add: fixture_defs model_defs)
  have r: "run pandoc_world (pandoc_cmd @ [path_str (file_path pandoc_world index_html)]) = Exit 1 []"
    by (simp add: fixture_defs model_defs)
  from r have "run pandoc_world (pandoc_cmd @ [path_str (file_path pandoc_world index_html)]) = Raised \<or>
      (\<exists>rc out. run pandoc_world (pandoc_cmd @ [path_str (file_path pandoc_world index_html)]) =
         Exit rc out \<and> rc \<noteq> 0)"
    by simp
  from conversion_failure_falls_back [OF t this, of "[]"] t r show ?thesis
    by (simp add: fixture_defs model_defs)
qed

text \<open>
  Claim C7. For a notebook when the probe for jupytext exits with a non-zero code, and for
  a pandoc format when pandoc is not on the path, \<open>get_conversion_tool\<close> returns
  \<open>None\<close> and the loop handles the file as plain text, without any exception.
\<close>

theorem missing_tool_falls_back:
  assumes "(lower (suffix (file_path w f)) = ''.ipynb'' \<and>
              (\<exists>rc out. run w (jupytext_probe w) = Exit rc out \<and> rc \<noteq> 0)) \<or>
           (lower (suffix (file_path w f)) \<in> set pandoc_formats \<and> which w ''pandoc'' = None)"
  shows "get_conversion_tool w (suffix (file_path w f)) = Inr None \<and>
         process_entry w f = Inr (text_entry w f)"
proof -
  have "get_conversion_tool w (suffix (file_path w f)) = Inr None"
    using assms by (auto simp: get_conversion_tool_def pandoc_tool_def pandoc_formats_def)
  then show ?thesis
    by (simp add: process_entry_no_tool)
qed

theorem missing_tool_falls_back_witness:
  "lower (suffix (file_path test_world notebook_ipynb)) = ''.ipynb'' \<and>
   run test_world (jupytext_probe test_world) = Exit 1 [] \<and>
   get_conversion_tool test_world (suffix (file_path test_world notebook_ipynb)) = Inr None \<and>
   process_entry test_world notebook_ipynb =
     Inr ([text_section test_world notebook_ipynb ''{}''], [Added [''analysis.ipynb'']]) \<and>
   lower (suffix (file_path test_world index_html)) \<in> set pandoc_formats \<and>
   which test_world ''pandoc'' = None \<and>
   get_conversion_tool test_world (suffix (file_path test_world index_html)) = Inr None \<and>
   process_entry test_world index_html =
     Inr ([text_section test_world index_html ''<p>Hello</p>''], [Added [''site'', ''index.html'']])"
proof -
  have a: "lower (suffix (file_path test_world notebook_ipynb)) = ''.ipynb'' \<and>
           (\<exists>rc out. run test_world (jupytext_probe test_world) = Exit rc out \<and> rc \<noteq> 0)"
    by (simp add: fixture_defs model_defs)
  have b: "lower (suffix (file_path test_world index_html)) \<in> set pandoc_formats \<and>
           which test_world ''pandoc'' = None"
    by (simp add: fixture_defs model_defs)
  from a b missing_tool_falls_back [of test_world notebook_ipynb]
    missing_tool_falls_back [of test_world index_html]
  show ?thesis
    by (simp add: fixture_defs text_entry_def is_text_file_def
        read_strict_def read_replace_def text_section_def relative_path_def)
qed



subsection \<open>The allow-list against the content\<close>






subsection \<open>Content that is not text\<close>







subsection \<open>The sections of the output document\<close>

text \<open>In the text of the document every section is eight writes after the title.\<close>

lemma render_length: "length (render d) = 1 + 8 * length (sections d)"
  by (simp add: render_def render_section_def length_concat comp_def sum_list_triv)

text \<open>The three ways the body of the loop can end for an entry.\<close>

lemma process_entry_cases:
  assumes "process_entry w f = Inr (ss, ms)"
  shows "(converts w f \<and> (\<exists>out. ss = [converted_section w f out])) \<or>
     (\<not> converts w f \<and> is_text_file w f \<and> readable f \<and>
        ss = [text_section w f (decode (content f))]) \<or>
     (\<not> converts w f \<and> \<not> (is_text_file w f \<and> readable f) \<and> ss = [])"
  using assms
  by (auto simp: process_entry_def converts_def text_entry_def read_replace_def
      split: sum.splits prod.splits option.splits if_splits)

lemma entry_section_paths:
  "process_entry w f = Inr (ss, ms) \<Longrightarrow> s \<in> set ss \<Longrightarrow> sec_path s = relative_path f"
  by (drule process_entry_cases) (auto simp: converted_section_def text_section_def)

lemma entry_sections_length: "process_entry w f = Inr (ss, ms) \<Longrightarrow> length ss \<le> 1"
  by (drule process_entry_cases) auto









text \<open>Every section of the output carries the path of an entry of the archive.\<close>

lemma run_section_paths:
  "s \<in> set (fst (process_files w fs)) \<Longrightarrow> sec_path s \<in> relative_path ` set fs"
proof (induction fs)
  case Nil
  then show ?case by simp
next
  case (Cons f fs)
  show ?case
  proof (cases "process_entry w f")
    case (Inl e)
    with Cons.prems show ?thesis
      by simp
  next
    case (Inr r)
    obtain ss ms where r: "process_entry w f = Inr (ss, ms)"
      using Inr by (cases r) simp
    from Cons.prems have "s \<in> set ss \<or> s \<in> set (fst (process_files w fs))"
      by (simp add: process_files_Cons [OF r] del: process_files.simps)
    then show ?thesis
    proof
      assume "s \<in> set ss"
      with entry_section_paths [OF r] show ?thesis
        by simp
    next
      assume "s \<in> set (fst (process_files w fs))"
      with Cons.IH show ?thesis
        by auto
    qed
  qed
qed

text \<open>
  When the walk yields every path once, the sections that carry the path of an entry are
  those that the body of the loop wrote for it, if the walk got that far.
\<close>

lemma sections_of_entry:
  assumes "distinct (map relative_path fs)" and "f \<in> set fs"
  shows "filter (\<lambda>s. sec_path s = relative_path f) (fst (process_files w fs)) = [] \<or>
         (\<exists>ms. process_entry w f =
            Inr (filter (\<lambda>s. sec_path s = relative_path f) (fst (process_files w fs)), ms))"
  using assms
proof (induction fs)
  case Nil
  then show ?case by simp
next
  case (Cons g fs)
  show ?case
  proof (cases "process_entry w g")
    case (Inl e)
    then show ?thesis
      by simp
  next
    case (Inr r)
    obtain ss ms where r: "process_entry w g = Inr (ss, ms)"
      using Inr by (cases r) simp
    have secs: "fst (process_files w (g # fs)) = ss @ fst (process_files w fs)"
      by (simp add: process_files_Cons [OF r] del: process_files.simps)
    have own: "\<forall>s\<in>set ss. sec_path s = relative_path g"
      using entry_section_paths [OF r] by blast
    show ?thesis
    proof (cases "relative_path g = relative_path f")
      case True
      with Cons.prems have "relative_path f \<notin> relative_path ` set fs"
        by auto
      have "sec_path s \<noteq> relative_path f" if "s \<in> set (fst (process_files w fs))" for s
        using run_section_paths [OF that] \<open>relative_path f \<notin> relative_path ` set fs\<close> by auto
      then have rest: "filter (\<lambda>s. sec_path s = relative_path f) (fst (process_files w fs)) = []"
        by (simp add: filter_empty_conv)
      from True Cons.prems have "f = g"
        by (auto simp: image_iff)
      moreover from own True have "filter (\<lambda>s. sec_path s = relative_path f) ss = ss"
        by (simp add: filter_id_conv)
      ultimately show ?thesis
        using r rest by (simp add: secs del: process_files.simps)
    next
      case False
      with own have "filter (\<lambda>s. sec_path s = relative_path f) ss = []"
        by (simp add: filter_empty_conv)
      moreover from False Cons.prems have "f \<in> set fs" and "distinct (map relative_path fs)"
        by auto
      ultimately show ?thesis
        using Cons.IH by (simp add: secs del: process_files.simps)
    qed
  qed
qed

text \<open>
  Claim C5. For an archive that extracts, and every entry of it, the output document has at
  most one section with the path of that entry; when the entry was converted no section
  with its path is a plain-text one; when it was neither converted nor read as text no
  section has its path.
\<close>

theorem at_most_one_section:
  assumes ar: "archive_at w (resolve w arg) = Some (Extracted files)"
    and nm: "name (resolve w arg) \<noteq> []"
    and dist: "distinct (map relative_path files)"
    and f: "f \<in> set files"
  shows "\<exists>out doc. outfile (process_zip w arg) = Some (out, doc) \<and>
           length (filter (\<lambda>s. sec_path s = relative_path f) (sections doc)) \<le> 1 \<and>
           (converts w f \<longrightarrow>
              (\<forall>s\<in>set (sections doc). sec_path s = relative_path f \<longrightarrow> sec_converted s)) \<and>
           (\<not> converts w f \<and> \<not> (is_text_file w f \<and> readable f) \<longrightarrow>
              (\<forall>s\<in>set (sections doc). sec_path s \<noteq> relative_path f))"
proof -
  define own where "own = filter (\<lambda>s. sec_path s = relative_path f) (fst (process_files w files))"
  have "own = [] \<or> (\<exists>ms. process_entry w f = Inr (own, ms))"
    unfolding own_def by (rule sections_of_entry [OF dist f])
  then have own: "length own \<le> 1 \<and>
      (converts w f \<longrightarrow> (\<forall>s\<in>set own. sec_converted s)) \<and>
      (\<not> converts w f \<and> \<not> (is_text_file w f \<and> readable f) \<longrightarrow> own = [])"
  proof
    assume "own = []"
    then show ?thesis
      by simp
  next
    assume "\<exists>ms. process_entry w f = Inr (own, ms)"
    then obtain ms where "process_entry w f = Inr (own, ms)"
      by blast
    from process_entry_cases [OF this] show ?thesis
      by (auto simp: converted_section_def)
  qed
  have mem: "s \<in> set own"
    if "s \<in> set (fst (process_files w files))" and "sec_path s = relative_path f" for s
    using that by (simp add: own_def)
  have one: "length (filter (\<lambda>s. sec_path s = relative_path f) (fst (process_files w files))) \<le> 1"
    using own by (simp add: own_def)
  have conv: "converts w f \<longrightarrow>
      (\<forall>s\<in>set (fst (process_files w files)). sec_path s = relative_path f \<longrightarrow> sec_converted s)"
    using own mem by blast
  have skip: "\<not> converts w f \<and> \<not> (is_text_file w f \<and> readable f) \<longrightarrow>
      (\<forall>s\<in>set (fst (process_files w files)). sec_path s \<noteq> relative_path f)"
    using own mem by fastforce
  from one conv skip show ?thesis
    by (simp add: process_zip_extracted [OF ar nm])
qed

theorem at_most_one_section_witness:
  "archive_at mixed_world (resolve mixed_world ''mixed.zip'') = Some (Extracted mixed_files) \<and>
   name (resolve mixed_world ''mixed.zip'') \<noteq> [] \<and>
   distinct (map relative_path mixed_files) \<and>
   report_docx \<in> set mixed_files \<and> image_png \<in> set mixed_files \<and>
   converts mixed_world report_docx \<and>
   \<not> converts mixed_world image_png \<and> \<not> is_text_file mixed_world image_png \<and>
   (\<exists>out doc. outfile (process_zip mixed_world ''mixed.zip'') = Some (out, doc) \<and>
      length (filter (\<lambda>s. sec_path s = relative_path report_docx) (sections doc)) \<le> 1 \<and>
      filter (\<lambda>s. sec_path s = relative_path report_docx \<and> \<not> sec_converted s)
        (sections doc) = [] \<and>
      filter (\<lambda>s. sec_path s = relative_path image_png) (sections doc) = [])"
proof -
  have ar: "archive_at mixed_world (resolve mixed_world ''mixed.zip'') =
      Some (Extracted mixed_files)"
    by (simp add: mixed_world_def pandoc_world_def)
  have nm: "name (resolve mixed_world ''mixed.zip'') \<noteq> []"
    by (simp add: mixed_world_def pandoc_world_def name_def)
  have dist: "distinct (map relative_path mixed_files)"
    by (simp add: mixed_files_def relative_path_def report_docx_def image_png_def hello_txt_def)
  have d: "report_docx \<in> set mixed_files" and i: "image_png \<in> set mixed_files"
    by (simp_all add: mixed_files_def)
  have cd: "converts mixed_world report_docx"
    by (simp add: converts_def fixture_defs model_defs)
  have ci: "\<not> converts mixed_world image_png"
    by (simp add: converts_def fixture_defs model_defs)
  have ti: "\<not> is_text_file mixed_world image_png"
    by (simp add: fixture_defs model_defs)
  from at_most_one_section [OF ar nm dist d] at_most_one_section [OF ar nm dist i] cd ci ti
  have "\<exists>out doc. outfile (process_zip mixed_world ''mixed.zip'') = Some (out, doc) \<and>
      length (filter (\<lambda>s. sec_path s = relative_path report_docx) (sections doc)) \<le> 1 \<and>
      filter (\<lambda>s. sec_path s = relative_path report_docx \<and> \<not> sec_converted s)
        (sections doc) = [] \<and>
      filter (\<lambda>s. sec_path s = relative_path image_png) (sections doc) = []"
    by (auto simp: filter_empty_conv)
  with ar nm dist d i cd ci ti show ?thesis
    by blast
qed

end
